theory Spec2Isabelle
  imports Complex_Main "HOL-Library.Log_Nat"
begin

section \<open>The freshness-check toy: dagster\_test/toys/freshness\_checks.py\<close>

text \<open>
  The module declares an observable source asset whose observation carries a simulated
  "last updated" timestamp, an asset that depends on it and fails when the source is
  stale, two freshness-check constructions, two schedules and one sensor.  The two
  functions with a body are embedded as HOL functions of everything they read: the
  execution context (with the observation store), the number drawn by
  \<^verbatim>\<open>random.random()\<close> and the clock reading \<^verbatim>\<open>pendulum.now()\<close>.
  Every exception of the Python is a value of \<open>py_error\<close> on the left of a sum.
\<close>

subsection \<open>Errors\<close>

datatype py_error =
    ValueError
  | IndexError
  | KeyError
  | CheckError
  | ParameterCheckError
  | Exception string

subsection \<open>Date-times\<close>

text \<open>
  A wall-clock time is the seven calendar fields of a Python \<^verbatim>\<open>datetime\<close>.  A
  \<^verbatim>\<open>pendulum.DateTime\<close> is a wall-clock time in a time zone: it carries the offset
  from UTC in force at that time, in seconds, and the zone.  Of the zone the module
  uses one thing, through \<^verbatim>\<open>replace\<close>: what pendulum makes of a wall-clock time in
  it.  \<open>tz_resolve\<close> is that function: for a wall-clock time it gives the wall-clock
  time and the offset of the date-time pendulum builds.  A wall-clock time that the
  zone has once comes back as it is, with the offset in force then; one that the zone
  skips when its clocks go forward is moved, and one that the zone has twice, when
  its clocks go back, comes back with one of its two offsets.  In a zone with a fixed
  offset, UTC among them, every wall-clock time comes back as it is, with that offset.
\<close>

record naive_datetime =
  year :: int
  month :: int
  day :: int
  hour :: int
  minute :: int
  second :: int
  microsecond :: int

record datetime = naive_datetime +
  utcoffset :: int
  tz_resolve :: "naive_datetime \<Rightarrow> naive_datetime \<times> int"

definition fixed_timezone :: "int \<Rightarrow> naive_datetime \<Rightarrow> naive_datetime \<times> int" where
  "fixed_timezone off w = (w, off)"

definition wall_clock :: "datetime \<Rightarrow> naive_datetime" where
  "wall_clock dt =
     \<lparr>year = year dt, month = month dt, day = day dt, hour = hour dt, minute = minute dt,
      second = second dt, microsecond = microsecond dt\<rparr>"

text \<open>The date-time of the zone of \<open>dt\<close> with the wall-clock time \<open>w\<close> and the offset \<open>off\<close>.\<close>

definition at_wall_clock :: "datetime \<Rightarrow> naive_datetime \<Rightarrow> int \<Rightarrow> datetime" where
  "at_wall_clock dt w off =
     dt\<lparr>year := year w, month := month w, day := day w, hour := hour w, minute := minute w,
        second := second w, microsecond := microsecond w, utcoffset := off\<rparr>"

definition is_leap :: "int \<Rightarrow> bool" where
  "is_leap y = (y mod 4 = 0 \<and> (y mod 100 \<noteq> 0 \<or> y mod 400 = 0))"

definition days_in_month :: "int \<Rightarrow> int \<Rightarrow> int" where
  "days_in_month y m =
     (if m = 2 then (if is_leap y then 29 else 28)
      else if m = 4 \<or> m = 6 \<or> m = 9 \<or> m = 11 then 30 else 31)"

text \<open>The field ranges every constructed \<^verbatim>\<open>datetime\<close> satisfies.\<close>

definition valid_datetime :: "datetime \<Rightarrow> bool" where
  "valid_datetime dt =
     (1 \<le> year dt \<and> year dt \<le> 9999 \<and>
      1 \<le> month dt \<and> month dt \<le> 12 \<and>
      1 \<le> day dt \<and> day dt \<le> days_in_month (year dt) (month dt) \<and>
      0 \<le> hour dt \<and> hour dt \<le> 23 \<and>
      0 \<le> minute dt \<and> minute dt \<le> 59 \<and>
      0 \<le> second dt \<and> second dt \<le> 59 \<and>
      0 \<le> microsecond dt \<and> microsecond dt \<le> 999999)"

text \<open>
  \<^verbatim>\<open>dt.replace(minute=m)\<close> builds a new date-time from the fields of \<open>dt\<close> with the
  minute exchanged.  The \<^verbatim>\<open>datetime\<close> constructor raises \<^verbatim>\<open>ValueError\<close> for a minute
  outside \<open>0..59\<close>; the other fields are those of \<open>dt\<close> and pass it again.  Pendulum
  then reads the new wall-clock time in the zone of \<open>dt\<close>.
\<close>

definition replace_minute :: "datetime \<Rightarrow> int \<Rightarrow> py_error + datetime" where
  "replace_minute dt m =
     (if 0 \<le> m \<and> m \<le> 59
      then (case tz_resolve dt ((wall_clock dt)\<lparr>minute := m\<rparr>) of
              (w, off) \<Rightarrow> Inr (at_wall_clock dt w off))
      else Inl ValueError)"


subsection \<open>Floats\<close>

text \<open>
  A Python float is a double, kept here as the real number it stands for.  The true
  division \<^verbatim>\<open>a / b\<close> of two integers is correctly rounded: the result is the double
  nearest to the quotient, the one with the even mantissa when two are equally near.
  For positive \<open>a\<close> and \<open>b\<close>, \<open>quotient_exponent a b\<close> is the \<open>e\<close> with
  \<open>2 ^ e \<le> a / b < 2 ^ (e + 1)\<close>, found from the bit lengths, and the double has a
  mantissa of 53 bits at that exponent.  This is the division for quotients in the
  normal range of doubles, where every timestamp of a date-time lies, and for a
  positive divisor.
\<close>

definition round_half_even :: "int \<Rightarrow> int \<Rightarrow> int" where
  "round_half_even n d =
     (let q = n div d; r = n mod d
      in if 2 * r < d then q else if d < 2 * r then q + 1 else if even q then q else q + 1)"

definition quotient_exponent :: "int \<Rightarrow> int \<Rightarrow> int" where
  "quotient_exponent a b =
     (let d = bitlen a - bitlen b
      in if b * 2 ^ nat d \<le> a * 2 ^ nat (- d) then d else d - 1)"

definition double_mantissa :: "int \<Rightarrow> int \<Rightarrow> int" where
  "double_mantissa a b =
     (let s = 52 - quotient_exponent a b
      in round_half_even (a * 2 ^ nat s) (b * 2 ^ nat (- s)))"

definition true_divide :: "int \<Rightarrow> int \<Rightarrow> real" where
  "true_divide a b =
     (if a = 0 then 0
      else let s = 52 - quotient_exponent \<bar>a\<bar> b
           in of_int (sgn a * double_mantissa \<bar>a\<bar> b) * 2 ^ nat (- s) / 2 ^ nat s)"

text \<open>
  \<^verbatim>\<open>dt.timestamp()\<close> of a date-time with a zone is \<^verbatim>\<open>(dt - epoch).total_seconds()\<close>:
  the microseconds from 1970-01-01T00:00:00Z to \<open>dt\<close>, an integer, divided by
  \<open>10 ^ 6\<close> as a float.  The days come from the proleptic Gregorian day number of the
  date (day 719163 is 1970-01-01).
\<close>

definition days_before_year :: "int \<Rightarrow> int" where
  "days_before_year y = (let p = y - 1 in p * 365 + p div 4 - p div 100 + p div 400)"

definition days_before_month :: "int \<Rightarrow> int \<Rightarrow> int" where
  "days_before_month y m =
     [0, 31, 59, 90, 120, 151, 181, 212, 243, 273, 304, 334] ! nat (m - 1)
       + (if m > 2 \<and> is_leap y then 1 else 0)"

definition ymd2ord :: "int \<Rightarrow> int \<Rightarrow> int \<Rightarrow> int" where
  "ymd2ord y m d = days_before_year y + days_before_month y m + d"

definition epoch_seconds :: "datetime \<Rightarrow> int" where
  "epoch_seconds dt =
     (ymd2ord (year dt) (month dt) (day dt) - 719163) * 86400
       + hour dt * 3600 + minute dt * 60 + second dt - utcoffset dt"

definition epoch_microseconds :: "datetime \<Rightarrow> int" where
  "epoch_microseconds dt = epoch_seconds dt * 1000000 + microsecond dt"

definition timestamp :: "datetime \<Rightarrow> real" where
  "timestamp dt = true_divide (epoch_microseconds dt) 1000000"

subsection \<open>Metadata, observations and the observation store\<close>

text \<open>
  A metadata entry of an observation.  \<^verbatim>\<open>MetadataValue.timestamp(dt)\<close> stores the epoch
  seconds of \<open>dt\<close> as a float, and a float entry holds a float as well; a text entry
  stands for the entries whose \<^verbatim>\<open>.value\<close> is not a float.
\<close>

datatype metadata_entry =
    TimestampMetadataValue real
  | FloatMetadataValue real
  | TextMetadataValue string

definition MetadataValue_timestamp :: "datetime \<Rightarrow> metadata_entry" where
  "MetadataValue_timestamp dt = TimestampMetadataValue (timestamp dt)"

record asset_observation_data =
  metadata :: "(string \<times> metadata_entry) list"

record event_log_record =
  asset_key :: string
  asset_observation :: "asset_observation_data option"

record asset_execution_context =
  dagster_instance :: "event_log_record list"
  context_asset_key :: string

definition last_updated_timestamp_key :: string where
  "last_updated_timestamp_key = ''dagster/last_updated_timestamp''"

text \<open>
  Modelled from the spec: \<^verbatim>\<open>fetch_observations\<close> is the framework's "fetch of prior
  observation records by asset key and limit"; its code is not part of this module.
  The store is the list of recorded events, most recent first.  The observation
  records of an asset key are the events of that key that are observations; the fetch
  returns the most recent \<open>limit\<close> of them, most recent first, and all of them for the
  limit 0, which the framework's query reads as no limit.
\<close>

definition observation_records :: "event_log_record list \<Rightarrow> string \<Rightarrow> event_log_record list" where
  "observation_records inst k =
     filter (\<lambda>r. asset_key r = k \<and> asset_observation r \<noteq> None) inst"

definition fetch_observations :: "event_log_record list \<Rightarrow> string \<Rightarrow> nat \<Rightarrow> event_log_record list" where
  "fetch_observations inst records_filter limit =
     (if limit = 0 then observation_records inst records_filter
      else take limit (observation_records inst records_filter))"

text \<open>\<^verbatim>\<open>records[0]\<close>: an empty list raises \<^verbatim>\<open>IndexError\<close>.\<close>

definition first_record :: "event_log_record list \<Rightarrow> py_error + event_log_record" where
  "first_record records = (case records of [] \<Rightarrow> Inl IndexError | r # _ \<Rightarrow> Inr r)"

text \<open>\<^verbatim>\<open>check.not_none(x)\<close>: a check failure for \<^verbatim>\<open>None\<close>, otherwise \<open>x\<close>.\<close>

definition not_none :: "'a option \<Rightarrow> py_error + 'a" where
  "not_none x = (case x of None \<Rightarrow> Inl CheckError | Some v \<Rightarrow> Inr v)"

text \<open>\<^verbatim>\<open>d[k]\<close> on a dict: \<^verbatim>\<open>KeyError\<close> for a missing key.\<close>

definition getitem :: "(string \<times> 'v) list \<Rightarrow> string \<Rightarrow> py_error + 'v" where
  "getitem d k = (case map_of d k of None \<Rightarrow> Inl KeyError | Some v \<Rightarrow> Inr v)"

text \<open>
  \<^verbatim>\<open>check.float_param(entry.value, name)\<close>: the \<^verbatim>\<open>.value\<close> of a timestamp or float
  entry is a float and passes; any other value fails the parameter check.
\<close>

definition float_param :: "metadata_entry \<Rightarrow> py_error + real" where
  "float_param e =
     (case e of
        TimestampMetadataValue t \<Rightarrow> Inr t
      | FloatMetadataValue t \<Rightarrow> Inr t
      | TextMetadataValue _ \<Rightarrow> Inl ParameterCheckError)"

text \<open>
  \<^verbatim>\<open>check.not_none(record.asset_observation).metadata["dagster/last_updated_timestamp"]\<close>,
  the expression both functions apply to the first fetched record.
\<close>

definition last_updated_entry :: "event_log_record \<Rightarrow> py_error + metadata_entry" where
  "last_updated_entry r =
     (case not_none (asset_observation r) of
        Inl e \<Rightarrow> Inl e
      | Inr obs \<Rightarrow> getitem (metadata obs) last_updated_timestamp_key)"

subsection \<open>The timestamp simulator\<close>

text \<open>
  Lines 91 to 93, the \<^verbatim>\<open>else\<close> branch.  \<^verbatim>\<open>math.floor((now.minute - 1) / 3) * 3\<close>
  divides two small integers as floats and floors the quotient, which is the integer
  floor division; \<open>div\<close> on \<open>int\<close> rounds down too, so \<open>(- 1) div 3 = - 1\<close>.
\<close>

definition rounded_minute :: "datetime \<Rightarrow> int" where
  "rounded_minute now = ((minute now - 1) div 3) * 3"

definition rounded_now :: "datetime \<Rightarrow> py_error + datetime" where
  "rounded_now now = replace_minute now (rounded_minute now)"

definition rounded_timestamp :: "datetime \<Rightarrow> py_error + metadata_entry" where
  "rounded_timestamp now =
     (case rounded_now now of Inl e \<Rightarrow> Inl e | Inr dt \<Rightarrow> Inr (MetadataValue_timestamp dt))"

text \<open>
  Lines 86 to 93: the body of the simulator once the records are fetched.  \<open>draw\<close> is
  the value of \<^verbatim>\<open>random.random()\<close>, \<open>now\<close> the value of \<^verbatim>\<open>pendulum.now()\<close>.
\<close>

definition simulator_body :: "event_log_record list \<Rightarrow> real \<Rightarrow> datetime \<Rightarrow> py_error + metadata_entry" where
  "simulator_body records draw now =
     (if draw < 1 / 2 \<and> length records > 1
      then (case first_record records of Inl e \<Rightarrow> Inl e | Inr r \<Rightarrow> last_updated_entry r)
      else rounded_timestamp now)"

text \<open>Lines 80 to 93: the fetch, with \<^verbatim>\<open>limit=1\<close>, and the body.\<close>

definition get_last_updated_timestamp_unreliable_source ::
  "asset_execution_context \<Rightarrow> real \<Rightarrow> datetime \<Rightarrow> py_error + metadata_entry" where
  "get_last_updated_timestamp_unreliable_source context draw now =
     simulator_body
       (fetch_observations (dagster_instance context) (context_asset_key context) 1) draw now"

subsection \<open>The declarations of the module\<close>

text \<open>
  What the decorators record of the two assets: the key (the function's name), the
  group, the upstream keys and whether the asset is an observable source.
\<close>

record assets_definition =
  key :: string
  group_name :: string
  non_argument_deps :: "string list"
  observable_source :: bool

definition unreliable_source_events_definition :: assets_definition where
  "unreliable_source_events_definition =
     \<lparr>key = ''unreliable_source_events'', group_name = ''freshness_checks'',
      non_argument_deps = [], observable_source = True\<rparr>"

definition derived_asset_definition :: assets_definition where
  "derived_asset_definition =
     \<lparr>key = ''derived_asset'', group_name = ''freshness_checks'',
      non_argument_deps = [key unreliable_source_events_definition],
      observable_source = False\<rparr>"

subsection \<open>The dependent asset\<close>

definition stale_message :: string where
  "stale_message = ''source is stale, so I am going to fail :(''"

text \<open>
  Lines 38 to 46: the fetch with \<^verbatim>\<open>limit=1\<close>, the unguarded \<^verbatim>\<open>records[0]\<close>, the
  metadata entry and the float check of its value.
\<close>

definition latest_updated_timestamp :: "asset_execution_context \<Rightarrow> py_error + real" where
  "latest_updated_timestamp context =
     (let latest_observations =
        fetch_observations (dagster_instance context) (key unreliable_source_events_definition) 1
      in case first_record latest_observations of
           Inl e \<Rightarrow> Inl e
         | Inr r \<Rightarrow>
             (case last_updated_entry r of
                Inl e \<Rightarrow> Inl e
              | Inr entry \<Rightarrow> float_param entry))"

text \<open>
  \<^verbatim>\<open>pendulum.now().subtract(minutes=3).timestamp()\<close>: pendulum moves the instant back
  by three minutes of elapsed time, whatever the zone does in between, so the new
  date-time is \<open>3 * 60 * 10 ^ 6\<close> microseconds earlier on the epoch scale; its
  timestamp is the float division of its microseconds.
\<close>

definition three_minutes_ago :: "datetime \<Rightarrow> real" where
  "three_minutes_ago now = true_divide (epoch_microseconds now - 3 * 60 * 1000000) 1000000"

text \<open>Lines 33 to 49.\<close>

definition derived_asset :: "asset_execution_context \<Rightarrow> datetime \<Rightarrow> py_error + int" where
  "derived_asset context now =
     (case latest_updated_timestamp context of
        Inl e \<Rightarrow> Inl e
      | Inr t \<Rightarrow>
          if t < three_minutes_ago now then Inl (Exception stale_message) else Inr 1)"

subsection \<open>Freshness checks, schedules and the sensor\<close>

datatype timedelta = Timedelta (total_seconds: int)

definition timedelta_minutes :: "int \<Rightarrow> timedelta" where
  "timedelta_minutes m = Timedelta (m * 60)"

text \<open>
  The builders, the schedule and the job are framework code.  The module only passes
  them arguments, so a construction is kept as the record of the arguments of its call.
\<close>

record freshness_checks_definition =
  assets :: "assets_definition list"
  deadline_cron :: string
  lower_bound_delta :: timedelta

definition build_last_update_freshness_checks ::
  "assets_definition list \<Rightarrow> string \<Rightarrow> timedelta \<Rightarrow> freshness_checks_definition" where
  "build_last_update_freshness_checks a c d =
     \<lparr>assets = a, deadline_cron = c, lower_bound_delta = d\<rparr>"

record asset_job =
  job_name :: string
  selection :: "assets_definition list"

definition define_asset_job :: "string \<Rightarrow> assets_definition list \<Rightarrow> asset_job" where
  "define_asset_job n sel = \<lparr>job_name = n, selection = sel\<rparr>"

record schedule_definition =
  job :: asset_job
  cron_schedule :: string

definition ScheduleDefinition :: "asset_job \<Rightarrow> string \<Rightarrow> schedule_definition" where
  "ScheduleDefinition j c = \<lparr>job = j, cron_schedule = c\<rparr>"

record sensor_definition =
  freshness_checks :: freshness_checks_definition
  minimum_interval_seconds :: int

definition build_sensor_for_freshness_checks ::
  "freshness_checks_definition \<Rightarrow> int \<Rightarrow> sensor_definition" where
  "build_sensor_for_freshness_checks fc n =
     \<lparr>freshness_checks = fc, minimum_interval_seconds = n\<rparr>"

text \<open>Lines 52 to 77.\<close>

definition freshness_checks_unreliable_source :: freshness_checks_definition where
  "freshness_checks_unreliable_source =
     build_last_update_freshness_checks [unreliable_source_events_definition]
       ''*/4 * * * *'' (timedelta_minutes 3)"

definition freshness_checks_derived_asset :: freshness_checks_definition where
  "freshness_checks_derived_asset =
     build_last_update_freshness_checks [derived_asset_definition]
       ''*/4 * * * *'' (timedelta_minutes 3)"

definition raw_events_schedule :: schedule_definition where
  "raw_events_schedule =
     ScheduleDefinition
       (define_asset_job ''observe_raw_events'' [unreliable_source_events_definition])
       ''*/3 * * * *''"

definition derived_asset_schedule :: schedule_definition where
  "derived_asset_schedule =
     ScheduleDefinition
       (define_asset_job ''derived_asset_job'' [derived_asset_definition])
       ''*/3 * * * *''"

definition freshness_sensor :: sensor_definition where
  "freshness_sensor = build_sensor_for_freshness_checks freshness_checks_derived_asset 5"

text \<open>
  Lines 96 to 106.  The list mixes the kinds of definition; the checks of one
  construction, which the Python unpacks into the list, stay one item.
\<close>

datatype definition_item =
    AssetItem assets_definition
  | ChecksItem freshness_checks_definition
  | ScheduleItem schedule_definition
  | SensorItem sensor_definition

definition get_freshness_defs_pile :: "definition_item list" where
  "get_freshness_defs_pile =
     [AssetItem unreliable_source_events_definition,
      ChecksItem freshness_checks_unreliable_source,
      ScheduleItem raw_events_schedule,
      AssetItem derived_asset_definition,
      ChecksItem freshness_checks_derived_asset,
      ScheduleItem derived_asset_schedule,
      SensorItem freshness_sensor]"

fun sensors_of :: "definition_item list \<Rightarrow> sensor_definition list" where
  "sensors_of [] = []"
| "sensors_of (SensorItem s # xs) = s # sensors_of xs"
| "sensors_of (_ # xs) = sensors_of xs"

subsection \<open>The fallback branch as the specification words it\<close>

text \<open>
  The specification's wording of the rounding: "take the current time, subtract one
  minute, floor-divide the minute component by 3, multiply by 3, and set the current
  time's minute field to that value".  One minute before a time with minute \<open>m\<close> the
  minute component is \<open>m - 1\<close>, and 59 when \<open>m\<close> is 0.
\<close>

definition spec_minute_one_minute_earlier :: "datetime \<Rightarrow> int" where
  "spec_minute_one_minute_earlier now = (minute now - 1) mod 60"

definition spec_rounded_minute :: "datetime \<Rightarrow> int" where
  "spec_rounded_minute now = (spec_minute_one_minute_earlier now div 3) * 3"

definition spec_rounded_timestamp :: "datetime \<Rightarrow> py_error + metadata_entry" where
  "spec_rounded_timestamp now =
     Inr (MetadataValue_timestamp (now\<lparr>minute := spec_rounded_minute now\<rparr>))"

subsection \<open>Sample inputs\<close>

text \<open>2024-03-05 at 12:00:00, at 12:16:30 and at 12:16:30.000001, all UTC.\<close>

definition noon :: datetime where
  "noon = \<lparr>year = 2024, month = 3, day = 5, hour = 12, minute = 0, second = 0,
           microsecond = 0, utcoffset = 0, tz_resolve = fixed_timezone 0\<rparr>"

definition quarter_past :: datetime where
  "quarter_past = \<lparr>year = 2024, month = 3, day = 5, hour = 12, minute = 16, second = 30,
                   microsecond = 0, utcoffset = 0, tz_resolve = fixed_timezone 0\<rparr>"

definition just_past :: datetime where
  "just_past = \<lparr>year = 2024, month = 3, day = 5, hour = 12, minute = 16, second = 30,
                microsecond = 1, utcoffset = 0, tz_resolve = fixed_timezone 0\<rparr>"





text \<open>An observation of the unreliable source that recorded the timestamp \<open>t\<close>.\<close>

definition observation_at :: "real \<Rightarrow> event_log_record" where
  "observation_at t =
     \<lparr>asset_key = ''unreliable_source_events'',
      asset_observation =
        Some \<lparr>metadata = [(''dagster/last_updated_timestamp'', TimestampMetadataValue t)]\<rparr>\<rparr>"

text \<open>An event of the unreliable source that is not an observation.\<close>

definition unobserved_event :: event_log_record where
  "unobserved_event = \<lparr>asset_key = ''unreliable_source_events'', asset_observation = None\<rparr>"

definition context_of :: "string \<Rightarrow> event_log_record list \<Rightarrow> asset_execution_context" where
  "context_of k inst = \<lparr>dagster_instance = inst, context_asset_key = k\<rparr>"

definition empty_context :: asset_execution_context where
  "empty_context = context_of ''unreliable_source_events'' []"

section \<open>Properties\<close>

subsection \<open>Floats\<close>

text \<open>
  The exponent is the one of the quotient, the rounded mantissa is within a half of the
  scaled quotient, a quotient that is an integer below \<open>2 ^ 53\<close> is returned as it is,
  and the result of a division is within \<open>2 ^ - 53\<close> of the quotient, relatively.
\<close>

lemma pow2_split: "(2::real) powi d = 2 ^ nat d / 2 ^ nat (- d)"
  by (cases "0 \<le> d") (simp_all add: power_int_def field_simps)

lemma exponent_test:
  assumes "0 < a" "0 < b"
  shows "(b * 2 ^ nat d \<le> a * 2 ^ nat (- d)) = ((2::real) powi d \<le> of_int a / of_int b)"
proof -
  have "(b * 2 ^ nat d \<le> a * 2 ^ nat (- d)) =
        (real_of_int (b * 2 ^ nat d) \<le> real_of_int (a * 2 ^ nat (- d)))"
    by (simp only: of_int_le_iff)
  also have "\<dots> = ((2::real) ^ nat d / 2 ^ nat (- d) \<le> of_int a / of_int b)"
    using assms by (simp add: field_simps)
  finally show ?thesis by (simp add: pow2_split)
qed

lemma bitlen_powi:
  assumes "0 < a"
  shows "(2::real) powi (bitlen a - 1) \<le> of_int a" "of_int a < (2::real) powi (bitlen a)"
proof -
  have b1: "1 \<le> bitlen a" using assms by (simp add: bitlen_alt_def)
  from bitlen_bounds [OF assms] have l: "2 ^ nat (bitlen a - 1) \<le> a" and u: "a < 2 ^ nat (bitlen a)"
    by simp_all
  have "real_of_int (2 ^ nat (bitlen a - 1)) \<le> of_int a" using l by (simp only: of_int_le_iff)
  then show "(2::real) powi (bitlen a - 1) \<le> of_int a" using b1 by (simp add: power_int_def)
  have "real_of_int a < of_int (2 ^ nat (bitlen a))" using u by (simp only: of_int_less_iff)
  then show "of_int a < (2::real) powi (bitlen a)" using b1 by (simp add: power_int_def)
qed

lemma quotient_exponent_bounds:
  assumes "0 < a" "0 < b"
  shows "(2::real) powi (quotient_exponent a b) \<le> of_int a / of_int b"
    and "of_int a / of_int b < (2::real) powi (quotient_exponent a b + 1)"
proof -
  define d where "d = bitlen a - bitlen b"
  have ra: "(2::real) powi (bitlen a - 1) \<le> of_int a" "of_int a < (2::real) powi (bitlen a)"
    using bitlen_powi [OF assms(1)] by simp_all
  have rb: "(2::real) powi (bitlen b - 1) \<le> of_int b" "of_int b < (2::real) powi (bitlen b)"
    using bitlen_powi [OF assms(2)] by simp_all
  have bpos: "0 < real_of_int b" using assms by simp
  have lo: "(2::real) powi (d - 1) < of_int a / of_int b"
  proof -
    have "(2::real) powi (d - 1) * of_int b < 2 powi (d - 1) * 2 powi (bitlen b)"
      using rb(2) by (simp add: mult_strict_left_mono)
    also have "\<dots> = 2 powi (bitlen a - 1)"
      by (simp add: d_def flip: power_int_add)
    also have "\<dots> \<le> of_int a" by (rule ra(1))
    finally show ?thesis using bpos by (simp add: field_simps)
  qed
  have hi: "of_int a / of_int b < (2::real) powi (d + 1)"
  proof -
    have "of_int a < (2::real) powi (bitlen a)" by (rule ra(2))
    also have "\<dots> = 2 powi (d + 1) * 2 powi (bitlen b - 1)"
      by (simp add: d_def flip: power_int_add)
    also have "\<dots> \<le> 2 powi (d + 1) * of_int b"
      using rb(1) by (simp add: mult_left_mono)
    finally show ?thesis using bpos by (simp add: field_simps)
  qed
  show "(2::real) powi (quotient_exponent a b) \<le> of_int a / of_int b"
    using lo exponent_test [OF assms, of d]
    by (auto simp add: quotient_exponent_def Let_def d_def [symmetric])
  show "of_int a / of_int b < (2::real) powi (quotient_exponent a b + 1)"
    using hi exponent_test [OF assms, of d]
    by (auto simp add: quotient_exponent_def Let_def d_def [symmetric])
qed

lemma round_half_even_error:
  assumes "0 < d"
  shows "\<bar>real_of_int (round_half_even n d) - of_int n / of_int d\<bar> \<le> 1 / 2"
proof -
  define q where "q = n div d"
  define r where "r = n mod d"
  have n: "n = q * d + r" by (simp add: q_def r_def)
  have r: "0 \<le> r" "r < d" using assms by (simp_all add: r_def)
  have dpos: "0 < real_of_int d" using assms by simp
  have frac: "real_of_int n / of_int d = of_int q + of_int r / of_int d"
    using dpos by (simp add: n field_simps)
  consider "2 * r < d" | "d < 2 * r" | "2 * r = d" by linarith
  then show ?thesis
  proof cases
    case 1
    then have "round_half_even n d = q" by (simp add: round_half_even_def q_def r_def Let_def)
    moreover have "real_of_int r / of_int d \<le> 1 / 2" "0 \<le> real_of_int r / of_int d"
      using 1 r dpos by (simp_all add: field_simps) linarith?
    ultimately show ?thesis by (simp add: frac)
  next
    case 2
    then have "round_half_even n d = q + 1" by (simp add: round_half_even_def q_def r_def Let_def)
    moreover have "1 / 2 \<le> real_of_int r / of_int d" "real_of_int r / of_int d \<le> 1"
      using 2 r dpos by (simp_all add: field_simps) linarith?
    ultimately show ?thesis by (simp add: frac)
  next
    case 3
    then have "round_half_even n d = q \<or> round_half_even n d = q + 1"
      by (simp add: round_half_even_def q_def r_def Let_def)
    moreover have half: "real_of_int r / of_int d = 1 / 2"
      using 3 dpos by (simp add: field_simps) linarith?
    ultimately show ?thesis
      unfolding frac half by (elim disjE) simp_all
  qed
qed

lemma round_half_even_multiple:
  assumes "0 < d"
  shows "round_half_even (q * d) d = q"
  using assms by (simp add: round_half_even_def Let_def)

lemma true_divide_exact:
  assumes "0 < k" "k < 2 ^ 53" "0 < b"
  shows "true_divide (k * b) b = of_int k"
proof -
  define e where "e = quotient_exponent (k * b) b"
  have kb: "0 < k * b" using assms by simp
  have "(2::real) powi e \<le> of_int (k * b) / of_int b"
    unfolding e_def by (rule quotient_exponent_bounds(1) [OF kb assms(3)])
  also have "\<dots> = of_int k" using assms by simp
  also have "\<dots> < 2 ^ 53" using assms(2) by simp
  also have "\<dots> = (2::real) powi 53" by (simp add: power_int_def)
  finally have lt: "(2::real) powi e < 2 powi 53" .
  have "e < 53"
  proof (rule ccontr)
    assume "\<not> e < 53"
    then have "(2::real) powi 53 \<le> 2 powi e"
      by (intro power_int_increasing) simp_all
    with lt show False by simp
  qed
  then have s: "0 \<le> 52 - e" by simp
  have z: "nat (- (52 - e)) = 0" using s by simp
  have "double_mantissa (k * b) b = round_half_even (k * b * 2 ^ nat (52 - e)) (b * 2 ^ nat (- (52 - e)))"
    by (simp add: double_mantissa_def Let_def e_def)
  also have "\<dots> = round_half_even (k * 2 ^ nat (52 - e) * b) b"
    unfolding z by (simp add: ac_simps)
  also have "\<dots> = k * 2 ^ nat (52 - e)"
    by (rule round_half_even_multiple [OF assms(3)])
  finally have m: "double_mantissa (k * b) b = k * 2 ^ nat (52 - e)" .
  show ?thesis
    using kb s m assms by (simp add: true_divide_def Let_def e_def [symmetric] abs_of_pos)
qed

lemma true_divide_error:
  assumes "0 < a" "0 < b"
  shows "\<bar>true_divide a b - of_int a / of_int b\<bar> \<le> (of_int a / of_int b) / 2 ^ 53"
proof -
  define e where "e = quotient_exponent a b"
  define s where "s = 52 - e"
  define x where "x = real_of_int a / of_int b"
  define m where "m = double_mantissa a b"
  have lo: "(2::real) powi e \<le> x"
    unfolding e_def x_def by (rule quotient_exponent_bounds(1) [OF assms])
  have dpos: "0 < b * 2 ^ nat (- s)" using assms by simp
  have ratio: "real_of_int (a * 2 ^ nat s) / of_int (b * 2 ^ nat (- s)) = x * 2 powi s"
    by (simp add: x_def pow2_split)
  have "\<bar>real_of_int m - x * 2 powi s\<bar> \<le> 1 / 2"
    using round_half_even_error [OF dpos, of "a * 2 ^ nat s"]
    unfolding ratio by (simp add: m_def double_mantissa_def Let_def s_def e_def)
  then have "\<bar>real_of_int m - x * 2 powi s\<bar> * 2 powi (- s) \<le> 1 / 2 * 2 powi (- s)"
    by (rule mult_right_mono) simp
  moreover have "\<bar>real_of_int m - x * 2 powi s\<bar> * 2 powi (- s) =
                 \<bar>real_of_int m * 2 powi (- s) - x\<bar>"
  proof -
    have "\<bar>real_of_int m - x * 2 powi s\<bar> * 2 powi (- s) =
          \<bar>(real_of_int m - x * 2 powi s) * 2 powi (- s)\<bar>"
      by (simp add: abs_mult)
    also have "(real_of_int m - x * 2 powi s) * 2 powi (- s) = real_of_int m * 2 powi (- s) - x"
      by (simp add: algebra_simps power_int_minus)
    finally show ?thesis .
  qed
  moreover have "1 / 2 * (2::real) powi (- s) = 2 powi e / 2 ^ 53"
  proof -
    have "- s = e - 52" by (simp add: s_def)
    then have "(2::real) powi (- s) = 2 powi e / 2 powi 52"
      by (simp add: power_int_diff)
    then show ?thesis by (simp add: power_int_def)
  qed
  moreover have "(2::real) powi e / 2 ^ 53 \<le> x / 2 ^ 53"
    using lo by (simp add: divide_right_mono)
  moreover have "true_divide a b = real_of_int m * 2 powi (- s)"
  proof -
    have "true_divide a b = real_of_int m * (2 ^ nat (- s) / 2 ^ nat s)"
      using assms by (simp add: true_divide_def Let_def m_def s_def e_def abs_of_pos)
    also have "(2::real) ^ nat (- s) / 2 ^ nat s = 2 powi (- s)"
      using pow2_split [of "- s"] by simp
    finally show ?thesis .
  qed
  ultimately show ?thesis
    unfolding x_def by linarith
qed


lemma three_minutes_ago_whole_second:
  assumes "microsecond now = 0" and "180 < epoch_seconds now" and "epoch_seconds now < 2 ^ 53"
  shows "three_minutes_ago now = of_int (epoch_seconds now) - 180"
proof -
  have "0 < epoch_seconds now - 180" "epoch_seconds now - 180 < 2 ^ 53"
    using assms by simp_all
  from true_divide_exact [OF this, of 1000000] assms(1) show ?thesis
    by (simp add: three_minutes_ago_def epoch_microseconds_def algebra_simps)
qed

subsection \<open>Auxiliary facts\<close>

lemma fetch_observations_length:
  "0 < limit \<Longrightarrow> length (fetch_observations inst k limit) \<le> limit"
  by (simp add: fetch_observations_def)

lemma epoch_seconds_quarter_past: "epoch_seconds quarter_past = 1709640990"
  by (simp add: epoch_seconds_def quarter_past_def ymd2ord_def days_before_year_def
      days_before_month_def is_leap_def)

lemma three_minutes_ago_quarter_past: "three_minutes_ago quarter_past = 1709640810"
proof -
  have "microsecond quarter_past = 0" by (simp add: quarter_past_def)
  then show ?thesis
    using three_minutes_ago_whole_second [of quarter_past]
    by (simp add: epoch_seconds_quarter_past)
qed

lemma latest_updated_timestamp_sample:
  "latest_updated_timestamp (context_of k (observation_at t # inst)) = Inr t"
  by (simp add: latest_updated_timestamp_def context_of_def observation_at_def
      fetch_observations_def observation_records_def unreliable_source_events_definition_def
      first_record_def last_updated_entry_def not_none_def getitem_def
      last_updated_timestamp_key_def float_param_def)

lemma fallback_agrees_from_minute_one:
  assumes "1 \<le> minute now" and "minute now \<le> 59"
    and "tz_resolve now ((wall_clock now)\<lparr>minute := rounded_minute now\<rparr>) =
           ((wall_clock now)\<lparr>minute := rounded_minute now\<rparr>, utcoffset now)"
  shows "rounded_timestamp now = spec_rounded_timestamp now"
proof -
  have r: "rounded_minute now = spec_rounded_minute now"
    using assms(1,2)
    by (simp add: rounded_minute_def spec_rounded_minute_def spec_minute_one_minute_earlier_def)
  have "0 \<le> rounded_minute now" "rounded_minute now \<le> 59"
    using assms(1,2) by (simp_all add: rounded_minute_def)
  then have "rounded_now now = Inr (now\<lparr>minute := rounded_minute now\<rparr>)"
    using assms(3)
    by (simp add: rounded_now_def replace_minute_def at_wall_clock_def wall_clock_def)
  then show ?thesis
    by (simp add: rounded_timestamp_def spec_rounded_timestamp_def r)
qed

lemma simulator_body_stale_branch:
  assumes "draw < 1 / 2" and "length records > 1"
  shows "simulator_body records draw now = last_updated_entry (records ! 0)"
  using assms
  by (cases records) (simp_all add: simulator_body_def first_record_def)



lemma three_minutes_ago_just_past: "three_minutes_ago just_past = 1792688321986561 / 1048576"
proof -
  have m: "epoch_microseconds just_past - 3 * 60 * 1000000 = 1709640810000001"
    by (simp add: epoch_microseconds_def epoch_seconds_def just_past_def ymd2ord_def
        days_before_year_def days_before_month_def is_leap_def)
  have e: "quotient_exponent 1709640810000001 1000000 = 30"
    by code_simp
  have d: "double_mantissa 1709640810000001 1000000 = 7170753287946244"
    by code_simp
  show ?thesis
    unfolding three_minutes_ago_def m by (simp add: true_divide_def Let_def e d)
qed

subsection \<open>The timestamp simulator\<close>

text \<open>
  C1.  The claim: the simulator has no error condition, it returns a timestamp entry
  for every clock reading and every history, the rounded minute always being a valid
  minute field.  The code does not: at a clock reading with minute 0 the rounded minute
  is \<open>- 3\<close> and \<^verbatim>\<open>replace\<close> raises \<^verbatim>\<open>ValueError\<close>.  Evaluated here at 12:00:00 with an
  empty store and the draw 0.25.
\<close>

theorem simulator_raises_at_minute_zero:
  "valid_datetime noon \<and> rounded_minute noon = - 3 \<and>
   get_last_updated_timestamp_unreliable_source empty_context (1 / 4) noon = Inl ValueError"
  by (simp add: valid_datetime_def days_in_month_def is_leap_def noon_def rounded_minute_def
      get_last_updated_timestamp_unreliable_source_def simulator_body_def
      fetch_observations_def observation_records_def empty_context_def context_of_def
      rounded_timestamp_def rounded_now_def replace_minute_def)

text \<open>
  C2.  The claim: in the fallback branch the returned entry is, for every clock reading,
  the current time with its minute set to three times the floor of a third of the
  minute component of the time one minute earlier.  At 12:00:00 that minute component
  is 59 and the claimed entry is 12:57:00 of the same day; the code takes
  \<open>minute - 1 = - 1\<close> instead, reaches \<open>- 3\<close> and raises \<^verbatim>\<open>ValueError\<close>.
\<close>

theorem fallback_differs_at_minute_zero:
  "rounded_timestamp noon = Inl ValueError \<and>
   spec_rounded_timestamp noon = Inr (MetadataValue_timestamp (noon\<lparr>minute := 57\<rparr>))"
  by (simp add: rounded_timestamp_def rounded_now_def rounded_minute_def replace_minute_def
      noon_def spec_rounded_timestamp_def spec_rounded_minute_def
      spec_minute_one_minute_earlier_def)


text \<open>
  C4.  The simulator fetches with limit 1, so the fetched list never has more than one
  record and the test \<^verbatim>\<open>len(records) > 1\<close> never holds: for every context, draw and
  clock reading the simulator equals the fallback branch alone.
\<close>

theorem simulator_is_fallback_branch:
  "length (fetch_observations (dagster_instance context) (context_asset_key context) 1) \<le> 1 \<and>
   get_last_updated_timestamp_unreliable_source context draw now = rounded_timestamp now"
proof -
  have le: "length (fetch_observations (dagster_instance context) (context_asset_key context) 1) \<le> 1"
    by (rule fetch_observations_length) simp
  then have "\<not> length (fetch_observations (dagster_instance context) (context_asset_key context) 1) > 1"
    by simp
  then have "get_last_updated_timestamp_unreliable_source context draw now = rounded_timestamp now"
    by (simp add: get_last_updated_timestamp_unreliable_source_def simulator_body_def)
  with le show ?thesis by simp
qed




subsection \<open>The dependent asset\<close>

text \<open>
  C5.  Let the most recent observation of \<^verbatim>\<open>unreliable_source_events\<close> in the store
  carry the timestamp \<open>t\<close>, the latest observed timestamp of the unreliable source.
  Then \<^verbatim>\<open>derived_asset\<close> raises the exception with the message "source is stale, so I am
  going to fail :(" exactly when \<open>t\<close> is strictly less than the current time minus 3
  minutes, and returns 1 otherwise.  The current time minus 3 minutes is the float
  timestamp of the instant \<open>3 * 60 * 10 ^ 6\<close> microseconds before the clock reading;
  as a float it is within \<open>2 ^ - 53\<close>, relatively, of the seconds of that instant.
\<close>

theorem derived_asset_stale_iff:
  assumes "observation_records (dagster_instance context) ''unreliable_source_events'' = r # rs"
    and "asset_observation r = Some obs"
    and "map_of (metadata obs) ''dagster/last_updated_timestamp'' =
           Some (TimestampMetadataValue t)"
  shows "derived_asset context now =
           (if t < true_divide (epoch_microseconds now - 3 * 60 * 1000000) 1000000
            then Inl (Exception ''source is stale, so I am going to fail :('')
            else Inr 1) \<and>
         (derived_asset context now =
            Inl (Exception ''source is stale, so I am going to fail :('')) =
           (t < true_divide (epoch_microseconds now - 3 * 60 * 1000000) 1000000) \<and>
         (3 * 60 * 1000000 < epoch_microseconds now \<longrightarrow>
            \<bar>true_divide (epoch_microseconds now - 3 * 60 * 1000000) 1000000
               - (of_int (epoch_microseconds now) / 1000000 - 3 * 60)\<bar>
              \<le> (of_int (epoch_microseconds now) / 1000000 - 3 * 60) / 2 ^ 53)"
proof -
  have l: "latest_updated_timestamp context = Inr t"
    using assms
    by (simp add: latest_updated_timestamp_def fetch_observations_def
        unreliable_source_events_definition_def first_record_def last_updated_entry_def
        not_none_def getitem_def last_updated_timestamp_key_def float_param_def)
  have d: "derived_asset context now =
           (if t < true_divide (epoch_microseconds now - 3 * 60 * 1000000) 1000000
            then Inl (Exception ''source is stale, so I am going to fail :('')
            else Inr 1)"
    using l by (simp add: derived_asset_def three_minutes_ago_def stale_message_def)
  have e: "\<bar>true_divide (epoch_microseconds now - 3 * 60 * 1000000) 1000000
               - (of_int (epoch_microseconds now) / 1000000 - 3 * 60)\<bar>
              \<le> (of_int (epoch_microseconds now) / 1000000 - 3 * 60) / 2 ^ 53"
    if "3 * 60 * 1000000 < epoch_microseconds now"
  proof -
    have p: "0 < epoch_microseconds now - 3 * 60 * 1000000" using that by simp
    have q: "real_of_int (epoch_microseconds now - 3 * 60 * 1000000) / real_of_int 1000000 =
             of_int (epoch_microseconds now) / 1000000 - 3 * 60"
      by (simp add: diff_divide_distrib)
    have "(0::int) < 1000000" by simp
    from true_divide_error [OF p this] show ?thesis unfolding q .
  qed
  from d e show ?thesis by simp
qed

theorem derived_asset_stale_iff_witness:
  "observation_records
     (dagster_instance
        (context_of ''derived_asset'' [observation_at (1792688321986561 / 1048576)]))
     ''unreliable_source_events'' = [observation_at (1792688321986561 / 1048576)] \<and>
   3 * 60 * 1000000 < epoch_microseconds just_past \<and>
   (1792688321986561 / 1048576 :: real)
     < of_int (epoch_microseconds just_past) / 1000000 - 3 * 60 \<and>
   derived_asset (context_of ''derived_asset'' [observation_at (1792688321986561 / 1048576)])
     just_past = Inr 1 \<and>
   observation_records
     (dagster_instance
        (context_of ''derived_asset'' [observation_at 1709640780, unobserved_event]))
     ''unreliable_source_events'' = [observation_at 1709640780] \<and>
   derived_asset (context_of ''derived_asset'' [observation_at 1709640780, unobserved_event])
     just_past = Inl (Exception ''source is stale, so I am going to fail :('')"
proof -
  have a: "observation_records
     (dagster_instance
        (context_of ''derived_asset'' [observation_at (1792688321986561 / 1048576)]))
     ''unreliable_source_events'' = [observation_at (1792688321986561 / 1048576)]"
    by (simp add: observation_records_def context_of_def observation_at_def)
  have b: "observation_records
     (dagster_instance
        (context_of ''derived_asset'' [observation_at 1709640780, unobserved_event]))
     ''unreliable_source_events'' = [observation_at 1709640780]"
    by (simp add: observation_records_def context_of_def observation_at_def
        unobserved_event_def)
  have o: "asset_observation (observation_at u) =
             Some \<lparr>metadata = [(''dagster/last_updated_timestamp'', TimestampMetadataValue u)]\<rparr>"
    for u by (simp add: observation_at_def)
  have k: "map_of (metadata
             \<lparr>metadata = [(''dagster/last_updated_timestamp'', TimestampMetadataValue u)]\<rparr>)
             ''dagster/last_updated_timestamp'' = Some (TimestampMetadataValue u)"
    for u by simp
  have m: "epoch_microseconds just_past = 1709640990000001"
    by (simp add: epoch_microseconds_def epoch_seconds_def just_past_def ymd2ord_def
        days_before_year_def days_before_month_def is_leap_def)
  have t: "true_divide (epoch_microseconds just_past - 3 * 60 * 1000000) 1000000 =
           1792688321986561 / 1048576"
    using three_minutes_ago_just_past by (simp add: three_minutes_ago_def)
  show ?thesis
    using a b derived_asset_stale_iff [OF a o k, of just_past]
      derived_asset_stale_iff [OF b o k, of just_past]
    unfolding t by (simp add: m)
qed

text \<open>
  C7.  \<^verbatim>\<open>derived_asset\<close> takes \<^verbatim>\<open>records[0]\<close> without a guard.  When the fetch returns
  no record, which is when the store has no observation of
  \<^verbatim>\<open>unreliable_source_events\<close>, the index access raises \<^verbatim>\<open>IndexError\<close>; and whenever
  the function completes, returning 1 or raising the staleness exception, the store
  holds at least one observation of \<^verbatim>\<open>unreliable_source_events\<close>.
\<close>

theorem derived_asset_needs_an_observation:
  "(fetch_observations (dagster_instance context) (key unreliable_source_events_definition) 1 = []
      \<longrightarrow> derived_asset context now = Inl IndexError) \<and>
   (observation_records (dagster_instance context) (key unreliable_source_events_definition) = []
      \<longrightarrow> derived_asset context now = Inl IndexError) \<and>
   (derived_asset context now = Inr 1 \<or>
    derived_asset context now = Inl (Exception stale_message)
      \<longrightarrow> filter (\<lambda>r. asset_key r = key unreliable_source_events_definition \<and>
                       asset_observation r \<noteq> None) (dagster_instance context) \<noteq> [])"
  by (auto simp add: derived_asset_def latest_updated_timestamp_def first_record_def
      fetch_observations_def observation_records_def split: sum.splits list.splits if_splits)

theorem derived_asset_needs_an_observation_witness:
  "fetch_observations (dagster_instance (context_of ''derived_asset'' [unobserved_event]))
     (key unreliable_source_events_definition) 1 = [] \<and>
   observation_records (dagster_instance (context_of ''derived_asset'' [unobserved_event]))
     (key unreliable_source_events_definition) = [] \<and>
   derived_asset (context_of ''derived_asset'' [unobserved_event]) quarter_past =
     Inl IndexError \<and>
   derived_asset (context_of ''derived_asset'' [observation_at 1709640960]) quarter_past =
     Inr 1 \<and>
   filter (\<lambda>r. asset_key r = key unreliable_source_events_definition \<and>
                asset_observation r \<noteq> None)
     (dagster_instance (context_of ''derived_asset'' [observation_at 1709640960])) \<noteq> []"
proof -
  have e: "observation_records (dagster_instance (context_of ''derived_asset'' [unobserved_event]))
     (key unreliable_source_events_definition) = []"
    by (simp add: observation_records_def context_of_def unobserved_event_def)
  then have f: "fetch_observations
     (dagster_instance (context_of ''derived_asset'' [unobserved_event]))
     (key unreliable_source_events_definition) 1 = []"
    by (simp add: fetch_observations_def)
  have d: "derived_asset (context_of ''derived_asset'' [observation_at 1709640960])
     quarter_past = Inr 1"
    by (simp add: derived_asset_def latest_updated_timestamp_sample
        three_minutes_ago_quarter_past)
  show ?thesis
    using e f d
      derived_asset_needs_an_observation
        [of "context_of ''derived_asset'' [unobserved_event]" quarter_past]
      derived_asset_needs_an_observation
        [of "context_of ''derived_asset'' [observation_at 1709640960]" quarter_past]
    by simp
qed

subsection \<open>The declarations\<close>

text \<open>
  C9.  The freshness sensor is built from the freshness checks of the derived asset,
  with a minimum interval of 5 seconds.  It is the only sensor of the module, and the
  freshness checks of the unreliable source, which are constructed and listed among
  the definitions, are not the checks of that sensor.
\<close>

theorem sensor_only_for_derived_asset:
  "freshness_checks freshness_sensor = freshness_checks_derived_asset \<and>
   minimum_interval_seconds freshness_sensor = 5 \<and>
   sensors_of get_freshness_defs_pile = [freshness_sensor] \<and>
   freshness_checks freshness_sensor \<noteq> freshness_checks_unreliable_source \<and>
   ChecksItem freshness_checks_unreliable_source \<in> set get_freshness_defs_pile"
  by (simp add: freshness_sensor_def build_sensor_for_freshness_checks_def
      get_freshness_defs_pile_def freshness_checks_derived_asset_def
      freshness_checks_unreliable_source_def build_last_update_freshness_checks_def
      unreliable_source_events_definition_def derived_asset_definition_def)

text \<open>
  C10.  Each of the two freshness-check constructions has an asset list of exactly one
  asset, \<^verbatim>\<open>unreliable_source_events\<close> and \<^verbatim>\<open>derived_asset\<close> respectively, the deadline
  cron expression \<^verbatim>\<open>*/4 * * * *\<close> and a lower-bound delta of 3 minutes, which is 180
  seconds.
\<close>

theorem freshness_checks_arguments:
  "assets freshness_checks_unreliable_source = [unreliable_source_events_definition] \<and>
   key unreliable_source_events_definition = ''unreliable_source_events'' \<and>
   deadline_cron freshness_checks_unreliable_source = ''*/4 * * * *'' \<and>
   lower_bound_delta freshness_checks_unreliable_source = timedelta_minutes 3 \<and>
   assets freshness_checks_derived_asset = [derived_asset_definition] \<and>
   key derived_asset_definition = ''derived_asset'' \<and>
   deadline_cron freshness_checks_derived_asset = ''*/4 * * * *'' \<and>
   lower_bound_delta freshness_checks_derived_asset = timedelta_minutes 3 \<and>
   total_seconds (timedelta_minutes 3) = 180"
  by (simp add: freshness_checks_derived_asset_def freshness_checks_unreliable_source_def
      build_last_update_freshness_checks_def unreliable_source_events_definition_def
      derived_asset_definition_def timedelta_minutes_def)

end
